theory Spec2Isabelle
  imports Main "HOL-Library.Sublist"
begin

section \<open>Data model\<close>

text \<open>
  The program keeps every task as a Python dictionary with a fixed set of keys
  (\<^verbatim>\<open>PlannerAgent.create_task\<close> writes the first nine, the other agents
  add the rest). The dictionary is modelled as a record; a key that an agent may find
  absent (\<^verbatim>\<open>task.get('tags', [])\<close>, \<^verbatim>\<open>x.get('optimization_score', 0)\<close>)
  or that is added later is an \<open>option\<close> field, \<open>None\<close> meaning that the key
  is absent.

  Text is a \<open>string\<close>, its characters read as the code points U+0000 to U+00FF.
  \<^verbatim>\<open>priority\<close> and \<^verbatim>\<open>status\<close> stay strings, as in the source, so that a
  value outside the expected ones takes the branch the source takes.

  A naive \<^verbatim>\<open>datetime\<close> is the number of microseconds since
  0001-01-01T00:00:00 (\<^verbatim>\<open>datetime.min\<close>), a \<^verbatim>\<open>timedelta\<close> a number of
  microseconds. The source stores timestamps as the ISO-8601 text written by
  \<^verbatim>\<open>isoformat()\<close> and reads it back with \<^verbatim>\<open>fromisoformat()\<close>; the record
  holds the instant that text denotes.
\<close>

type_synonym datetime = int
type_synonym timedelta = int

record task =
  task_id :: string
  title :: string
  description :: string
  priority :: string
  due_date :: datetime
  created_date :: datetime
  status :: string
  estimated_duration :: int
  tags :: "string list option"
  completed_date :: "datetime option"
  scheduled_time :: "datetime option"
  preparation_time :: "int option"
  buffer_time :: "int option"
  optimization_score :: "int option"
  reminder_type :: "string option"

datatype error = KeyError | OverflowError

definition seconds :: "int \<Rightarrow> timedelta" where
  "seconds n = 1000000 * n"

definition minutes :: "int \<Rightarrow> timedelta" where
  "minutes n = seconds (60 * n)"

definition hours :: "int \<Rightarrow> timedelta" where
  "hours n = minutes (60 * n)"

definition days :: "int \<Rightarrow> timedelta" where
  "days n = hours (24 * n)"

text \<open>\<^verbatim>\<open>timedelta.days\<close>: Python normalises a timedelta so that its seconds and
  microseconds are not negative, hence the day count is the floor.\<close>

definition td_days :: "timedelta \<Rightarrow> int" where
  "td_days td = td div days 1"

text \<open>The last representable instant is 9999-12-31T23:59:59.999999; the proleptic
  Gregorian ordinal of that day is 3652059.\<close>

definition datetime_max :: datetime where
  "datetime_max = days 3652059 - 1"

text \<open>\<^verbatim>\<open>datetime - timedelta\<close> raises \<^verbatim>\<open>OverflowError\<close> when the result leaves
  the range of \<^verbatim>\<open>datetime\<close>.\<close>

definition datetime_sub :: "datetime \<Rightarrow> timedelta \<Rightarrow> error + datetime" where
  "datetime_sub d td =
     (let r = d - td in if 0 \<le> r \<and> r \<le> datetime_max then Inr r else Inl OverflowError)"

section \<open>Planner\<close>

text \<open>\<^verbatim>\<open>PlannerAgent._estimate_duration\<close> (agents.py, lines 26 to 34).\<close>

definition estimate_duration :: "string \<Rightarrow> string \<Rightarrow> int" where
  "estimate_duration ttl descr =
     (let content_length = length ttl + length descr in
      if content_length < 50 then 30
      else if content_length < 100 then 60
      else 120)"

text \<open>\<^verbatim>\<open>str.lower()\<close> on the code points below 256: the letters A to Z and the
  Latin-1 capitals U+00C0 to U+00DE (the multiplication sign U+00D7 apart) move up by 32,
  everything else stays.\<close>

definition lower_char :: "char \<Rightarrow> char" where
  "lower_char c =
     (let n = (of_char c :: nat) in
      if (65 \<le> n \<and> n \<le> 90) \<or> (192 \<le> n \<and> n \<le> 222 \<and> n \<noteq> 215)
      then char_of (n + 32) else c)"

definition lower :: "string \<Rightarrow> string" where
  "lower s = map lower_char s"

text \<open>Python's \<^verbatim>\<open>tag in content\<close> on strings: \<open>tag\<close> occurs in \<open>content\<close> as a
  contiguous run of characters. The search tries every start position from the left.\<close>

fun starts_with :: "string \<Rightarrow> string \<Rightarrow> bool" where
  "starts_with [] s = True"
| "starts_with (c # cs) [] = False"
| "starts_with (c # cs) (d # ds) = (c = d \<and> starts_with cs ds)"

fun str_contains :: "string \<Rightarrow> string \<Rightarrow> bool" where
  "str_contains tag [] = (tag = [])"
| "str_contains tag (c # cs) = (starts_with tag (c # cs) \<or> str_contains tag cs)"

definition common_tags :: "string list" where
  "common_tags =
     [''meeting'', ''call'', ''email'', ''report'', ''review'', ''urgent'', ''important'']"

text \<open>\<^verbatim>\<open>PlannerAgent._extract_tags\<close> (agents.py, lines 36 to 41).\<close>

definition extract_tags :: "string \<Rightarrow> string \<Rightarrow> string list" where
  "extract_tags ttl descr =
     (let content = lower (ttl @ '' '' @ descr) in
      filter (\<lambda>tag. str_contains tag content) common_tags)"

text \<open>\<^verbatim>\<open>PlannerAgent.create_task\<close> (agents.py, lines 11 to 24). The fresh
  identifier \<^verbatim>\<open>str(uuid.uuid4())\<close> and the clock \<^verbatim>\<open>datetime.now()\<close> are
  inputs of the model.\<close>

definition create_task ::
  "string \<Rightarrow> datetime \<Rightarrow> string \<Rightarrow> string \<Rightarrow> string \<Rightarrow> datetime \<Rightarrow> task" where
  "create_task uuid4 now ttl descr prio due =
     \<lparr> task_id = uuid4,
       title = ttl,
       description = descr,
       priority = prio,
       due_date = due,
       created_date = now,
       status = ''pending'',
       estimated_duration = estimate_duration ttl descr,
       tags = Some (extract_tags ttl descr),
       completed_date = None,
       scheduled_time = None,
       preparation_time = None,
       buffer_time = None,
       optimization_score = None,
       reminder_type = None \<rparr>"

section \<open>Scheduler\<close>

text \<open>\<^verbatim>\<open>SchedulerAgent._calculate_optimal_time\<close> (agents.py, lines 79 to 91). Any
  priority other than \<^verbatim>\<open>'High'\<close> and \<^verbatim>\<open>'Medium'\<close> takes the last branch.\<close>

definition calculate_optimal_time :: "task \<Rightarrow> error + datetime" where
  "calculate_optimal_time task =
     (if priority task = ''High'' then datetime_sub (due_date task) (hours 2)
      else if priority task = ''Medium'' then datetime_sub (due_date task) (hours 1)
      else datetime_sub (due_date task) (minutes 30))"

text \<open>\<^verbatim>\<open>task.get('tags', [])\<close>.\<close>

definition get_tags :: "task \<Rightarrow> string list" where
  "get_tags task = (case tags task of None \<Rightarrow> [] | Some found_tags \<Rightarrow> found_tags)"

text \<open>\<^verbatim>\<open>SchedulerAgent._calculate_prep_time\<close> (agents.py, lines 93 to 100); \<^verbatim>\<open>in\<close>
  on a list is membership.\<close>

definition calculate_prep_time :: "task \<Rightarrow> int" where
  "calculate_prep_time task =
     (if ''meeting'' \<in> set (get_tags task) then 15
      else if ''report'' \<in> set (get_tags task) then 30
      else 5)"

text \<open>\<^verbatim>\<open>SchedulerAgent.schedule_task\<close> (agents.py, lines 49 to 54): the three keys
  are written one after the other into the same dictionary.\<close>

definition schedule_task :: "task \<Rightarrow> error + task" where
  "schedule_task task =
     (case calculate_optimal_time task of
        Inl e \<Rightarrow> Inl e
      | Inr optimal_time \<Rightarrow>
          (let task1 = task\<lparr>scheduled_time := Some optimal_time\<rparr>;
               task2 = task1\<lparr>preparation_time := Some (calculate_prep_time task1)\<rparr>
           in Inr (task2\<lparr>buffer_time := Some 15\<rparr>)))"

text \<open>The dictionary \<^verbatim>\<open>priority_scores\<close> of \<^verbatim>\<open>optimize_schedule\<close>.\<close>

definition priority_scores :: "string \<Rightarrow> int option" where
  "priority_scores = [''High'' \<mapsto> 3, ''Medium'' \<mapsto> 2, ''Low'' \<mapsto> 1]"

text \<open>The body of the loop of \<^verbatim>\<open>optimize_schedule\<close> (agents.py, lines 64 to 72),
  \<open>now\<close> being what \<^verbatim>\<open>datetime.now()\<close> returns in this pass;
  \<^verbatim>\<open>priority_scores[task['priority']]\<close> raises \<^verbatim>\<open>KeyError\<close> on an unknown
  priority.\<close>

definition score_task :: "datetime \<Rightarrow> task \<Rightarrow> error + task" where
  "score_task now task =
     (let days_until_due = td_days (due_date task - now);
          urgency_score = max 1 (5 - days_until_due)
      in case priority_scores (priority task) of
           None \<Rightarrow> Inl KeyError
         | Some priority_score \<Rightarrow>
             Inr (task\<lparr>optimization_score := Some (urgency_score + priority_score)\<rparr>))"

text \<open>
  The loop runs over \<^verbatim>\<open>pending_tasks\<close>, a new list holding the very dictionaries
  of \<^verbatim>\<open>tasks\<close> whose status is \<^verbatim>\<open>'pending'\<close>, in their order. Writing the
  score into such a dictionary changes it in \<^verbatim>\<open>tasks\<close> as well, so after the loop
  \<^verbatim>\<open>tasks\<close> holds the scored records at the places of the pending ones and the others
  as they were. The first unknown priority among the pending records ends the loop.

  \<^verbatim>\<open>datetime.now()\<close> is called inside the loop, once for every pending record
  (agents.py, line 67). \<open>clock k\<close> is what the call numbered \<open>k\<close> returns, counted from
  0 within one run of \<^verbatim>\<open>optimize_schedule\<close>; the loop carries the number of calls made
  so far.
\<close>

fun score_pending :: "(nat \<Rightarrow> datetime) \<Rightarrow> nat \<Rightarrow> task list \<Rightarrow> error + task list" where
  "score_pending clock k [] = Inr []"
| "score_pending clock k (task # ts) =
     (if status task = ''pending'' then
        (case score_task (clock k) task of
           Inl e \<Rightarrow> Inl e
         | Inr task' \<Rightarrow>
             (case score_pending clock (Suc k) ts of
                Inl e \<Rightarrow> Inl e
              | Inr ts' \<Rightarrow> Inr (task' # ts')))
      else
        (case score_pending clock k ts of
           Inl e \<Rightarrow> Inl e
         | Inr ts' \<Rightarrow> Inr (task # ts')))"

text \<open>\<^verbatim>\<open>x.get('optimization_score', 0)\<close>, the key of the sort.\<close>

definition get_optimization_score :: "task \<Rightarrow> int" where
  "get_optimization_score x = (case optimization_score x of None \<Rightarrow> 0 | Some v \<Rightarrow> v)"

text \<open>\<^verbatim>\<open>list.sort(key=..., reverse=True)\<close>: descending by key, records with equal keys
  keeping their order. Insertion sort by the negated key is such a sort.\<close>

definition sort_reverse :: "task list \<Rightarrow> task list" where
  "sort_reverse ts = sort_key (\<lambda>x. - get_optimization_score x) ts"

text \<open>
  \<^verbatim>\<open>SchedulerAgent.optimize_schedule\<close> (agents.py, lines 56 to 77).
  \<open>optimize_schedule_locals\<close> gives the two lists as they stand at the
  \<^verbatim>\<open>return\<close> statement: \<^verbatim>\<open>tasks\<close> and the local \<^verbatim>\<open>pending_tasks\<close>, sorted.
  The function returns \<^verbatim>\<open>tasks\<close>.
\<close>

definition optimize_schedule_locals ::
  "(nat \<Rightarrow> datetime) \<Rightarrow> task list \<Rightarrow> error + (task list \<times> task list)" where
  "optimize_schedule_locals clock ts =
     (case score_pending clock 0 ts of
        Inl e \<Rightarrow> Inl e
      | Inr ts' \<Rightarrow>
          Inr (ts', sort_reverse (filter (\<lambda>t. status t = ''pending'') ts')))"

definition optimize_schedule :: "(nat \<Rightarrow> datetime) \<Rightarrow> task list \<Rightarrow> error + task list" where
  "optimize_schedule clock ts =
     (case optimize_schedule_locals clock ts of
        Inl e \<Rightarrow> Inl e
      | Inr (ts', pending_tasks) \<Rightarrow> Inr ts')"

section \<open>Reminder\<close>

text \<open>\<^verbatim>\<open>self.reminder_thresholds\<close> (agents.py, lines 107 to 111).\<close>

definition reminder_thresholds :: "string \<Rightarrow> timedelta list option" where
  "reminder_thresholds =
     [''High'' \<mapsto> [hours 2, hours 1, minutes 30],
      ''Medium'' \<mapsto> [hours 1, minutes 30],
      ''Low'' \<mapsto> [minutes 30]]"

text \<open>\<^verbatim>\<open>self.reminder_thresholds.get(task['priority'], [timedelta(minutes=30)])\<close>.\<close>

definition get_thresholds :: "string \<Rightarrow> timedelta list" where
  "get_thresholds prio =
     (case reminder_thresholds prio of None \<Rightarrow> [minutes 30] | Some thresholds \<Rightarrow> thresholds)"

text \<open>
  \<^verbatim>\<open>str(timedelta)\<close>, which the f-string \<^verbatim>\<open>f"due_in_{threshold}"\<close> calls: hours,
  minutes and seconds as \<^verbatim>\<open>%d:%02d:%02d\<close>, the days in front when there are any, the
  microseconds behind when there are any.
\<close>

definition digit_char :: "int \<Rightarrow> char" where
  "digit_char n = char_of (48 + n)"

text \<open>The decimal digits of a number that is not negative.\<close>

function str_digits :: "int \<Rightarrow> string" where
  "str_digits n =
     (if n < 10 then [digit_char n] else str_digits (n div 10) @ [digit_char (n mod 10)])"
  by pat_completeness auto
termination
  by (relation "measure nat") auto

declare str_digits.simps [simp del]

definition str_int :: "int \<Rightarrow> string" where
  "str_int i = (if i < 0 then CHR ''-'' # str_digits (- i) else str_digits i)"

definition zero_pad :: "nat \<Rightarrow> int \<Rightarrow> string" where
  "zero_pad width n = replicate (width - length (str_digits n)) CHR ''0'' @ str_digits n"

definition str_timedelta :: "timedelta \<Rightarrow> string" where
  "str_timedelta td =
     (let d = td_days td;
          secs = (td mod days 1) div seconds 1;
          us = td mod seconds 1;
          mm = secs div 60; ss = secs mod 60;
          hh = mm div 60; mm = mm mod 60;
          s = str_digits hh @ '':'' @ zero_pad 2 mm @ '':'' @ zero_pad 2 ss;
          s = (if d \<noteq> 0
               then str_int d @ '' day'' @ (if \<bar>d\<bar> \<noteq> 1 then ''s'' else []) @ '', '' @ s
               else s)
      in if us \<noteq> 0 then s @ ''.'' @ zero_pad 6 us else s)"

text \<open>The inner loop of \<^verbatim>\<open>check_reminders\<close> (agents.py, lines 134 to 139): the first
  threshold of the list that the remaining time does not exceed, and the \<^verbatim>\<open>break\<close>
  there; \<open>None\<close> when the loop ends without one.\<close>

fun first_threshold :: "timedelta \<Rightarrow> timedelta list \<Rightarrow> timedelta option" where
  "first_threshold time_until_due [] = None"
| "first_threshold time_until_due (threshold # thresholds) =
     (if time_until_due \<le> threshold then Some threshold
      else first_threshold time_until_due thresholds)"

text \<open>
  \<^verbatim>\<open>ReminderAgent.check_reminders\<close> (agents.py, lines 113 to 141): the loop over the
  tasks, with the list \<^verbatim>\<open>reminders\<close> built so far. The clock is read once, before the
  loop. \<^verbatim>\<open>time_until_due.total_seconds() < 0\<close> holds exactly when the timedelta is
  negative. \<^verbatim>\<open>task not in reminders\<close> compares dictionaries by their contents. The
  records of the result are the caller's own dictionaries, with \<^verbatim>\<open>reminder_type\<close>
  written into them.
\<close>

fun check_reminders_loop :: "datetime \<Rightarrow> task list \<Rightarrow> task list \<Rightarrow> task list" where
  "check_reminders_loop current_time [] reminders = reminders"
| "check_reminders_loop current_time (task # ts) reminders =
     (if status task = ''completed'' then check_reminders_loop current_time ts reminders
      else
        (let time_until_due = due_date task - current_time in
         if time_until_due < 0 then
           check_reminders_loop current_time ts
             (reminders @ [task\<lparr>reminder_type := Some ''overdue''\<rparr>])
         else
           (case first_threshold time_until_due (get_thresholds (priority task)) of
              None \<Rightarrow> check_reminders_loop current_time ts reminders
            | Some threshold \<Rightarrow>
                (let task' = task\<lparr>reminder_type := Some (''due_in_'' @ str_timedelta threshold)\<rparr>
                 in check_reminders_loop current_time ts
                      (if task' \<notin> set reminders then reminders @ [task'] else reminders)))))"

definition check_reminders :: "datetime \<Rightarrow> task list \<Rightarrow> task list" where
  "check_reminders current_time ts = check_reminders_loop current_time ts []"

section \<open>Record store\<close>

text \<open>
  \<^verbatim>\<open>TaskStorage\<close> (storage.py) keeps the list \<^verbatim>\<open>self.tasks\<close> and mirrors it to
  a JSON file. \<^verbatim>\<open>_save_tasks\<close> catches every exception of the write itself, so neither
  the list nor the value an operation returns depends on the file: the state of the store
  is the list.
\<close>

record storage =
  tasks :: "task list"

text \<open>\<^verbatim>\<open>TaskStorage.add_task\<close> (storage.py, lines 30 to 38).\<close>

definition add_task :: "task \<Rightarrow> storage \<Rightarrow> bool \<times> storage" where
  "add_task task s = (True, s\<lparr>tasks := tasks s @ [task]\<rparr>)"

text \<open>The loop of \<^verbatim>\<open>update_task\<close> (storage.py, lines 54 to 59): the list with the
  first record of that id replaced, \<open>None\<close> when the loop ends without a match.\<close>

fun replace_first :: "string \<Rightarrow> task \<Rightarrow> task list \<Rightarrow> task list option" where
  "replace_first tid updated_task [] = None"
| "replace_first tid updated_task (task # ts) =
     (if task_id task = tid then Some (updated_task # ts)
      else (case replace_first tid updated_task ts of
              None \<Rightarrow> None
            | Some ts' \<Rightarrow> Some (task # ts')))"

text \<open>\<^verbatim>\<open>TaskStorage.update_task\<close> (storage.py, lines 51 to 62).\<close>

definition update_task :: "string \<Rightarrow> task \<Rightarrow> storage \<Rightarrow> bool \<times> storage" where
  "update_task tid updated_task s =
     (case replace_first tid updated_task (tasks s) of
        None \<Rightarrow> (False, s)
      | Some ts' \<Rightarrow> (True, s\<lparr>tasks := ts'\<rparr>))"

text \<open>\<^verbatim>\<open>TaskStorage.delete_task\<close> (storage.py, lines 64 to 72).\<close>

definition delete_task :: "string \<Rightarrow> storage \<Rightarrow> bool \<times> storage" where
  "delete_task tid s = (True, s\<lparr>tasks := filter (\<lambda>task. task_id task \<noteq> tid) (tasks s)\<rparr>)"

text \<open>Sequences of operations on a store that starts empty.\<close>

datatype store_op = Add task | Update string task | Delete string

fun apply_op :: "storage \<Rightarrow> store_op \<Rightarrow> storage" where
  "apply_op s (Add task) = snd (add_task task s)"
| "apply_op s (Update tid updated_task) = snd (update_task tid updated_task s)"
| "apply_op s (Delete tid) = snd (delete_task tid s)"

definition empty_storage :: storage where
  "empty_storage = \<lparr>tasks = []\<rparr>"

definition run_ops :: "store_op list \<Rightarrow> storage" where
  "run_ops ops = foldl apply_op empty_storage ops"

fun added_ids :: "store_op list \<Rightarrow> string list" where
  "added_ids [] = []"
| "added_ids (Add task # ops) = task_id task # added_ids ops"
| "added_ids (Update tid updated_task # ops) = added_ids ops"
| "added_ids (Delete tid # ops) = added_ids ops"

fun keeps_id :: "store_op \<Rightarrow> bool" where
  "keeps_id (Update tid updated_task) = (task_id updated_task = tid)"
| "keeps_id (Add task) = True"
| "keeps_id (Delete tid) = True"

subsection \<open>The store with object identity\<close>

text \<open>
  What a caller can do to the store through a record it was handed depends on which
  dictionaries are shared. Here the dictionaries live in a heap, \<^verbatim>\<open>self.tasks\<close> is a
  list of references, and an assignment \<^verbatim>\<open>task[key] = value\<close> changes the object
  behind a reference.
\<close>

type_synonym ref = nat

record object_store =
  heap :: "ref \<Rightarrow> task option"
  self_tasks :: "ref list"

text \<open>\<^verbatim>\<open>TaskStorage.get_all_tasks\<close> (storage.py, lines 40 to 42): \<^verbatim>\<open>list.copy()\<close>
  makes a new list of the same references.\<close>

definition get_all_tasks :: "object_store \<Rightarrow> ref list" where
  "get_all_tasks s = self_tasks s"

text \<open>\<^verbatim>\<open>task['status'] = value\<close> on the dictionary behind \<open>r\<close>.\<close>

definition set_status :: "ref \<Rightarrow> string \<Rightarrow> object_store \<Rightarrow> object_store" where
  "set_status r v s =
     (case heap s r of
        None \<Rightarrow> s
      | Some task \<Rightarrow> s\<lparr>heap := (heap s)(r \<mapsto> task\<lparr>status := v\<rparr>)\<rparr>)"

text \<open>The records the store holds: what every later read returns and what
  \<^verbatim>\<open>_save_tasks\<close> writes.\<close>

definition stored_records :: "object_store \<Rightarrow> task option list" where
  "stored_records s = map (heap s) (self_tasks s)"

section \<open>Properties of the planner\<close>

text \<open>
  Claim C6. The estimated duration that \<open>create_task\<close> stores depends on the title and
  the description only through \<open>L = length title + length description\<close>: it is 30 when
  \<open>L < 50\<close>, 60 when \<open>50 \<le> L < 100\<close> and 120 when \<open>100 \<le> L\<close>; hence it is one of
  30, 60 and 120, and a content that is not shorter never gets a smaller duration.
\<close>

theorem estimated_duration_by_length:
  "(let L = length ttl + length descr;
        d = estimated_duration (create_task uuid4 now ttl descr prio due) in
      (L < 50 \<longrightarrow> d = 30) \<and> (50 \<le> L \<and> L < 100 \<longrightarrow> d = 60) \<and> (100 \<le> L \<longrightarrow> d = 120) \<and>
      d \<in> {30, 60, 120}) \<and>
   (length ttl + length descr \<le> length ttl' + length descr' \<longrightarrow>
      estimated_duration (create_task uuid4 now ttl descr prio due)
        \<le> estimated_duration (create_task uuid4' now' ttl' descr' prio' due'))"
  by (simp add: create_task_def estimate_duration_def Let_def)

theorem estimated_duration_by_length_witness:
  "estimated_duration (create_task ''a1'' 0 ''Call client'' [] ''High'' (minutes 90)) = 30 \<and>
   estimated_duration
     (create_task ''a2'' 0 (replicate 20 CHR ''x'') (replicate 30 CHR ''y'') ''Low'' 0) = 60 \<and>
   estimated_duration (create_task ''a3'' 0 (replicate 99 CHR ''x'') ''z'' ''Low'' 0) = 120"
  using estimated_duration_by_length
      [of "''Call client''" "[]" "''a1''" 0 "''High''" "minutes 90"]
    estimated_duration_by_length
      [of "replicate 20 CHR ''x''" "replicate 30 CHR ''y''" "''a2''" 0 "''Low''" 0]
    estimated_duration_by_length
      [of "replicate 99 CHR ''x''" "''z''" "''a3''" 0 "''Low''" 0]
  by (simp add: Let_def)

subsection \<open>Tags\<close>

text \<open>The search of \<open>str_contains\<close> finds exactly the contiguous occurrences.\<close>

lemma starts_with_prefix: "starts_with t s \<longleftrightarrow> prefix t s"
  by (induction t s rule: starts_with.induct) auto

lemma str_contains_sublist: "str_contains t s \<longleftrightarrow> sublist t s"
  by (induction s) (auto simp: starts_with_prefix sublist_Cons_right)

text \<open>A word without the separator cannot reach across it.\<close>

lemma prefix_sep:
  assumes "c \<notin> set t"
  shows "prefix t (zs @ c # ys) \<longleftrightarrow> prefix t zs"
proof
  assume "prefix t (zs @ c # ys)"
  then consider "prefix t zs" | us where "t = zs @ us" "prefix us (c # ys)"
    by (auto simp: prefix_append)
  then show "prefix t zs"
  proof cases
    case 1 then show ?thesis .
  next
    case 2
    with assms have "us = []" by (cases us) auto
    with 2 show ?thesis by simp
  qed
next
  assume "prefix t zs" then show "prefix t (zs @ c # ys)" by (rule prefix_prefix)
qed

lemma sublist_sep:
  assumes "c \<notin> set t"
  shows "sublist t (xs @ c # ys) \<longleftrightarrow> sublist t xs \<or> sublist t ys"
proof (induction xs)
  case Nil
  from assms have "prefix t (c # ys) \<longleftrightarrow> t = []"
    using prefix_sep [of c t "[]" ys] by simp
  then show ?case by (auto simp: sublist_Cons_right)
next
  case (Cons x xs)
  from assms have "prefix t (x # xs @ c # ys) \<longleftrightarrow> prefix t (x # xs)"
    using prefix_sep [of c t "x # xs" ys] by simp
  with Cons show ?case by (auto simp: sublist_Cons_right)
qed

lemma space_notin_common_tags: "tag \<in> set common_tags \<Longrightarrow> CHR '' '' \<notin> set tag"
  by (auto simp: common_tags_def)

lemma lower_space: "lower (ttl @ CHR '' '' # descr) = lower ttl @ CHR '' '' # lower descr"
  by (simp add: lower_def lower_char_def)

text \<open>
  Claim C7, as amended. The tags are the words of the vocabulary, in the order of the
  vocabulary, that occur in the lower-cased text \<open>title @ '' '' @ description\<close>, the two
  joined by one space; since no word of the vocabulary holds a space, these are the words
  that occur in the lower-cased title or in the lower-cased description. The result is a
  function of the title and the description alone, so that extracting again gives the same
  sequence.
\<close>

theorem extract_tags_vocabulary:
  "extract_tags ttl descr =
     filter (\<lambda>tag. sublist tag (lower (ttl @ '' '' @ descr))) common_tags \<and>
   extract_tags ttl descr =
     filter (\<lambda>tag. sublist tag (lower ttl) \<or> sublist tag (lower descr)) common_tags"
proof -
  have a: "extract_tags ttl descr =
     filter (\<lambda>tag. sublist tag (lower (ttl @ '' '' @ descr))) common_tags"
    by (simp add: extract_tags_def str_contains_sublist)
  have "filter (\<lambda>tag. sublist tag (lower (ttl @ '' '' @ descr))) common_tags =
     filter (\<lambda>tag. sublist tag (lower ttl) \<or> sublist tag (lower descr)) common_tags"
    by (rule filter_cong) (simp_all add: lower_space sublist_sep space_notin_common_tags)
  with a show ?thesis by simp
qed

text \<open>As stated, with the title and the description joined directly, the claim fails: the
  title \<^verbatim>\<open>me\<close> and the description \<^verbatim>\<open>eting\<close> join to \<^verbatim>\<open>meeting\<close>, and no tag
  is produced.\<close>

theorem extract_tags_concat_counterexample:
  "extract_tags ''me'' ''eting'' \<noteq>
     filter (\<lambda>tag. sublist tag (lower (''me'' @ ''eting''))) common_tags"
  by code_simp

section \<open>Properties of the reminders\<close>

lemma str_timedelta_2h: "str_timedelta (hours 2) = ''2:00:00''"
  by code_simp

lemma loop_keeps: "set reminders \<subseteq> set (check_reminders_loop now ts reminders)"
proof (induction ts arbitrary: reminders)
  case Nil
  then show ?case by simp
next
  case (Cons task ts)
  have a: "\<And>x. set reminders \<subseteq> set (check_reminders_loop now ts (reminders @ [x]))"
    using Cons [of "reminders @ [_]"] by auto
  show ?case
    using Cons [of reminders] a by (auto simp: Let_def split: option.splits)
qed

lemma loop_overdue:
  "task \<in> set ts \<Longrightarrow> status task \<noteq> ''completed'' \<Longrightarrow> due_date task < now \<Longrightarrow>
   task\<lparr>reminder_type := Some ''overdue''\<rparr> \<in> set (check_reminders_loop now ts reminders)"
proof (induction ts arbitrary: reminders)
  case Nil
  then show ?case by simp
next
  case (Cons a ts)
  show ?case
  proof (cases "a = task")
    case True
    have "task\<lparr>reminder_type := Some ''overdue''\<rparr>
            \<in> set (check_reminders_loop now ts
                     (reminders @ [task\<lparr>reminder_type := Some ''overdue''\<rparr>]))"
      using loop_keeps [of "reminders @ [task\<lparr>reminder_type := Some ''overdue''\<rparr>]" now ts]
      by auto
    with True Cons.prems show ?thesis by (simp add: Let_def)
  next
    case False
    with Cons.prems have "task \<in> set ts" by simp
    from Cons.IH [OF this Cons.prems(2,3)] show ?thesis
      by (simp add: Let_def split: option.splits)
  qed
qed

lemma loop_threshold:
  "task \<in> set ts \<Longrightarrow> status task \<noteq> ''completed'' \<Longrightarrow> now \<le> due_date task \<Longrightarrow>
   first_threshold (due_date task - now) (get_thresholds (priority task)) = Some th \<Longrightarrow>
   task\<lparr>reminder_type := Some (''due_in_'' @ str_timedelta th)\<rparr>
     \<in> set (check_reminders_loop now ts reminders)"
proof (induction ts arbitrary: reminders)
  case Nil
  then show ?case by simp
next
  case (Cons a ts)
  let ?t' = "task\<lparr>reminder_type := Some (''due_in_'' @ str_timedelta th)\<rparr>"
  show ?case
  proof (cases "a = task")
    case True
    have "?t' \<in> set (check_reminders_loop now ts (reminders @ [?t']))"
      using loop_keeps [of "reminders @ [?t']" now ts] by auto
    moreover have "?t' \<in> set reminders \<Longrightarrow> ?t' \<in> set (check_reminders_loop now ts reminders)"
      using loop_keeps [of reminders now ts] by auto
    ultimately show ?thesis using True Cons.prems by (auto simp: Let_def)
  next
    case False
    with Cons.prems have "task \<in> set ts" by simp
    from Cons.IH [OF this Cons.prems(2,3,4)] show ?thesis
      by (simp add: Let_def split: option.splits)
  qed
qed

lemma first_threshold_split:
  "ths = pre @ th # post \<Longrightarrow> \<forall>p\<in>set pre. p < tud \<Longrightarrow> tud \<le> th \<Longrightarrow>
   first_threshold tud ths = Some th"
  by (induction pre arbitrary: ths) auto

lemma get_thresholds_High: "get_thresholds ''High'' = [hours 2, hours 1, minutes 30]"
  by (simp add: get_thresholds_def reminder_thresholds_def)

text \<open>The thresholds of a priority are stored from the longest to the shortest, and the
  loop stops at the first that the remaining time does not exceed. So only the first
  threshold of a list ever classifies a record: for High the 1 hour and the 30 minute
  thresholds, for Medium the 30 minute threshold, are never reached.\<close>

lemma high_only_first_threshold:
  "first_threshold time_until_due (get_thresholds ''High'') = Some th \<Longrightarrow> th = hours 2"
  by (simp add: get_thresholds_def reminder_thresholds_def hours_def minutes_def seconds_def
        split: if_splits)

lemma medium_only_first_threshold:
  "first_threshold time_until_due (get_thresholds ''Medium'') = Some th \<Longrightarrow> th = hours 1"
  by (simp add: get_thresholds_def reminder_thresholds_def hours_def minutes_def seconds_def
        split: if_splits)

text \<open>
  What the loop does for a record that is not completed. When its due date is strictly in
  the past, the returned list holds it with the reminder type \<^verbatim>\<open>overdue\<close>, whatever its
  priority. When it is not overdue, it is classified by the first threshold of its
  priority's list, in the order of the list, that its remaining time does not exceed, and
  the returned list holds it with \<^verbatim>\<open>due_in_\<close> followed by that threshold; for a High
  record due in 25 minutes that is the 2 hour threshold.
\<close>

lemma check_reminders_classification:
  assumes "task \<in> set ts" and "status task \<noteq> ''completed''"
  shows "(due_date task < now \<longrightarrow>
            task\<lparr>reminder_type := Some ''overdue''\<rparr> \<in> set (check_reminders now ts)) \<and>
         (now \<le> due_date task \<and> get_thresholds (priority task) = pre @ th # post \<and>
            (\<forall>p\<in>set pre. p < due_date task - now) \<and> due_date task - now \<le> th \<longrightarrow>
            task\<lparr>reminder_type := Some (''due_in_'' @ str_timedelta th)\<rparr>
              \<in> set (check_reminders now ts)) \<and>
         (priority task = ''High'' \<and> due_date task - now = minutes 25 \<longrightarrow>
            task\<lparr>reminder_type := Some ''due_in_2:00:00''\<rparr> \<in> set (check_reminders now ts))"
proof (intro conjI impI)
  assume "due_date task < now"
  with assms show "task\<lparr>reminder_type := Some ''overdue''\<rparr> \<in> set (check_reminders now ts)"
    by (simp add: check_reminders_def loop_overdue)
next
  assume a: "now \<le> due_date task \<and> get_thresholds (priority task) = pre @ th # post \<and>
            (\<forall>p\<in>set pre. p < due_date task - now) \<and> due_date task - now \<le> th"
  then have ft: "first_threshold (due_date task - now) (get_thresholds (priority task)) = Some th"
    by (intro first_threshold_split [of _ pre th post]) auto
  from a have "now \<le> due_date task" by simp
  from loop_threshold [OF assms this ft]
  show "task\<lparr>reminder_type := Some (''due_in_'' @ str_timedelta th)\<rparr>
              \<in> set (check_reminders now ts)"
    unfolding check_reminders_def .
next
  assume a: "priority task = ''High'' \<and> due_date task - now = minutes 25"
  then have ft:
    "first_threshold (due_date task - now) (get_thresholds (priority task)) = Some (hours 2)"
    by (simp add: get_thresholds_High hours_def minutes_def seconds_def)
  from a have "now \<le> due_date task"
    by (simp add: minutes_def seconds_def)
  from loop_threshold [OF assms this ft]
  have "task\<lparr>reminder_type := Some (''due_in_'' @ str_timedelta (hours 2))\<rparr>
              \<in> set (check_reminders now ts)"
    unfolding check_reminders_def .
  then show "task\<lparr>reminder_type := Some ''due_in_2:00:00''\<rparr> \<in> set (check_reminders now ts)"
    by (simp add: str_timedelta_2h)
qed

lemma check_reminders_classification_example:
  "(create_task ''r1'' (days 739000) ''Pay rent'' [] ''High'' (days 739000 + minutes 25))
      \<lparr>reminder_type := Some ''due_in_2:00:00''\<rparr>
     \<in> set (check_reminders (days 739000)
          [create_task ''r1'' (days 739000) ''Pay rent'' [] ''High'' (days 739000 + minutes 25),
           create_task ''r2'' (days 739000) ''Water plants'' [] ''Low'' (days 739000 - hours 1)]) \<and>
   (create_task ''r2'' (days 739000) ''Water plants'' [] ''Low'' (days 739000 - hours 1))
      \<lparr>reminder_type := Some ''overdue''\<rparr>
     \<in> set (check_reminders (days 739000)
          [create_task ''r1'' (days 739000) ''Pay rent'' [] ''High'' (days 739000 + minutes 25),
           create_task ''r2'' (days 739000) ''Water plants'' [] ''Low'' (days 739000 - hours 1)])"
  using check_reminders_classification
      [of "create_task ''r1'' (days 739000) ''Pay rent'' [] ''High'' (days 739000 + minutes 25)"
          "[create_task ''r1'' (days 739000) ''Pay rent'' [] ''High'' (days 739000 + minutes 25),
            create_task ''r2'' (days 739000) ''Water plants'' [] ''Low'' (days 739000 - hours 1)]"
          "days 739000" "[]" "hours 2" "[hours 1, minutes 30]"]
    check_reminders_classification
      [of "create_task ''r2'' (days 739000) ''Water plants'' [] ''Low'' (days 739000 - hours 1)"
          "[create_task ''r1'' (days 739000) ''Pay rent'' [] ''High'' (days 739000 + minutes 25),
            create_task ''r2'' (days 739000) ''Water plants'' [] ''Low'' (days 739000 - hours 1)]"
          "days 739000" "[]" "minutes 30" "[]"]
  by (simp add: create_task_def hours_def minutes_def seconds_def days_def)

text \<open>
  Claim C1 says that a record due in 25 minutes with priority High is classified
  \<^verbatim>\<open>due_in_30min\<close>, the thresholds 2 hours, 1 hour, 30 minutes being tried in this
  order, and that an overdue record is classified \<^verbatim>\<open>overdue\<close> whatever its priority.
  The second part holds (\<open>check_reminders_classification\<close>). For the first, the run of
  the code on such a record: 25 minutes do not exceed 2 hours, the loop stops there, and the
  record is returned as \<^verbatim>\<open>due_in_2:00:00\<close>, not with the label of the 30 minute
  threshold.
\<close>

theorem check_reminders_25min_high:
  "map reminder_type
     (check_reminders (days 739000)
        [create_task ''r1'' (days 739000) ''Pay rent'' [] ''High'' (days 739000 + minutes 25)])
     = [Some ''due_in_2:00:00''] \<and>
   map reminder_type
     (check_reminders (days 739000)
        [create_task ''r1'' (days 739000) ''Pay rent'' [] ''High'' (days 739000 + minutes 25)])
     \<noteq> [Some (''due_in_'' @ str_timedelta (minutes 30))]"
  by code_simp

section \<open>Properties of the scheduler\<close>

subsection \<open>Scheduling one task\<close>

lemma extract_tags_call_client: "extract_tags ''Call client'' [] = [''call'']"
  by code_simp

lemma extract_tags_meeting_report:
  "extract_tags ''Meeting about the report'' [] = [''meeting'', ''report'']"
  by code_simp

text \<open>
  Claim C8. For a record whose priority is Low, Medium or High, \<open>schedule_task\<close> sets the
  scheduled time to the due date minus the offset of the priority (2 hours for High, 1 hour
  for Medium, 30 minutes for Low), whether or not that instant is past; the preparation time
  to 15 when the tags hold \<^verbatim>\<open>meeting\<close>, else 30 when they hold \<^verbatim>\<open>report\<close>, else 5;
  and the buffer time to 15. The scheduled time has to be an instant that a
  \<^verbatim>\<open>datetime\<close> can hold, which every due date from 0001-01-01T02:00 on gives.
\<close>

theorem schedule_task_fields:
  assumes "priority task \<in> {''Low'', ''Medium'', ''High''}"
    and "offset = (if priority task = ''High'' then hours 2
                   else if priority task = ''Medium'' then hours 1 else minutes 30)"
    and "0 \<le> due_date task - offset" and "due_date task - offset \<le> datetime_max"
  shows "schedule_task task =
     Inr (task\<lparr>scheduled_time := Some (due_date task - offset),
               preparation_time :=
                 Some (if ''meeting'' \<in> set (get_tags task) then 15
                       else if ''report'' \<in> set (get_tags task) then 30 else 5),
               buffer_time := Some 15\<rparr>)"
  using assms
  by (auto simp: schedule_task_def calculate_optimal_time_def datetime_sub_def Let_def
        calculate_prep_time_def get_tags_def)

text \<open>The task \<^verbatim>\<open>Call client\<close>, High, due in 90 minutes, is scheduled 30 minutes before
  the present; a Low task with both tags gets the preparation time of a meeting.\<close>

theorem schedule_task_fields_witness:
  "schedule_task (create_task ''c1'' (days 739000) ''Call client'' [] ''High''
                    (days 739000 + minutes 90))
   = Inr ((create_task ''c1'' (days 739000) ''Call client'' [] ''High''
                    (days 739000 + minutes 90))
            \<lparr>scheduled_time := Some (days 739000 - minutes 30),
              preparation_time := Some 5, buffer_time := Some 15\<rparr>) \<and>
   schedule_task (create_task ''c2'' (days 739000) ''Meeting about the report'' [] ''Low''
                    (days 739001))
   = Inr ((create_task ''c2'' (days 739000) ''Meeting about the report'' [] ''Low''
                    (days 739001))
            \<lparr>scheduled_time := Some (days 739001 - minutes 30),
              preparation_time := Some 15, buffer_time := Some 15\<rparr>)"
  using schedule_task_fields
      [of "create_task ''c1'' (days 739000) ''Call client'' [] ''High''
             (days 739000 + minutes 90)" "hours 2"]
    schedule_task_fields
      [of "create_task ''c2'' (days 739000) ''Meeting about the report'' [] ''Low''
             (days 739001)" "minutes 30"]
  by (simp add: create_task_def extract_tags_call_client extract_tags_meeting_report
        get_tags_def datetime_max_def days_def hours_def minutes_def seconds_def)

text \<open>Before 0001-01-01T02:00 the subtraction leaves the range and nothing is returned.\<close>

lemma schedule_task_overflow:
  "priority task = ''High'' \<Longrightarrow> due_date task < hours 2 \<Longrightarrow> schedule_task task = Inl OverflowError"
  by (simp add: schedule_task_def calculate_optimal_time_def datetime_sub_def Let_def)

subsection \<open>Scores\<close>

lemma priority_scores_known:
  "p \<in> {''High'', ''Medium'', ''Low''} \<Longrightarrow>
   priority_scores p = Some (if p = ''High'' then 3 else if p = ''Medium'' then 2 else 1)"
  by (auto simp: priority_scores_def)

lemma priority_scores_unknown:
  "p \<notin> {''High'', ''Medium'', ''Low''} \<Longrightarrow> priority_scores p = None"
  by (simp add: priority_scores_def)

lemma score_task_known:
  "priority t \<in> {''High'', ''Medium'', ''Low''} \<Longrightarrow>
   score_task now t =
     Inr (t\<lparr>optimization_score :=
              Some (max 1 (5 - (due_date t - now) div 86400000000)
                    + (if priority t = ''High'' then 3
                       else if priority t = ''Medium'' then 2 else 1))\<rparr>)"
  using priority_scores_known [of "priority t"]
  by (simp add: score_task_def Let_def td_days_def days_def hours_def minutes_def seconds_def)

text \<open>The loop in closed form: the record at place \<open>i\<close> is scored against the reading
  numbered by the pending records before it.\<close>

lemma score_pending_map:
  "\<forall>t\<in>set ts. status t = ''pending'' \<longrightarrow> priority t \<in> {''High'', ''Medium'', ''Low''} \<Longrightarrow>
   score_pending clock k ts =
     Inr (map (\<lambda>i. if status (ts ! i) = ''pending''
                    then (ts ! i)\<lparr>optimization_score :=
                           Some (max 1 (5 - (due_date (ts ! i)
                                   - clock (k + length (filter (\<lambda>u. status u = ''pending'') (take i ts))))
                                 div 86400000000)
                                 + (if priority (ts ! i) = ''High'' then 3
                                    else if priority (ts ! i) = ''Medium'' then 2 else 1))\<rparr>
                    else ts ! i) [0..<length ts])"
proof (induction ts arbitrary: k)
  case Nil
  then show ?case by simp
next
  case (Cons a ts)
  then have ok: "\<forall>t\<in>set ts. status t = ''pending'' \<longrightarrow> priority t \<in> {''High'', ''Medium'', ''Low''}"
    by simp
  show ?case
  proof (cases "status a = ''pending''")
    case True
    with Cons.prems have "priority a \<in> {''High'', ''Medium'', ''Low''}" by simp
    from score_task_known [OF this, of "clock k"] True Cons.IH [OF ok, of "Suc k"]
    show ?thesis
      by (simp add: map_upt_Suc del: upt_Suc)
  next
    case False
    with Cons.IH [OF ok, of k] show ?thesis
      by (simp add: map_upt_Suc del: upt_Suc)
  qed
qed

text \<open>A pending record with any other priority ends the call with \<^verbatim>\<open>KeyError\<close>.\<close>

lemma score_pending_unknown:
  "t \<in> set ts \<Longrightarrow> status t = ''pending'' \<Longrightarrow> priority t \<notin> {''High'', ''Medium'', ''Low''} \<Longrightarrow>
   score_pending clock k ts = Inl KeyError"
proof (induction ts arbitrary: k)
  case Nil
  then show ?case by simp
next
  case (Cons a ts)
  show ?case
  proof (cases "a = t")
    case True
    with Cons.prems priority_scores_unknown [of "priority t"] show ?thesis
      by (simp add: score_task_def Let_def)
  next
    case False
    with Cons have "\<And>k. score_pending clock k ts = Inl KeyError" by simp
    then show ?thesis
      by (cases "score_task (clock k) a") (simp_all add: score_task_def Let_def split: option.splits)
  qed
qed

lemma optimize_schedule_unknown_priority:
  "t \<in> set ts \<Longrightarrow> status t = ''pending'' \<Longrightarrow> priority t \<notin> {''High'', ''Medium'', ''Low''} \<Longrightarrow>
   optimize_schedule clock ts = Inl KeyError"
  by (simp add: optimize_schedule_def optimize_schedule_locals_def score_pending_unknown)

text \<open>
  Claim C5. When the pending records carry the priorities High, Medium or Low,
  \<open>optimize_schedule\<close> returns, and in the list it returns every pending record has the
  optimization score \<open>urgency + priority_score\<close>, where
  \<open>days_until_due = \<lfloor>(due_date - now) / 1 day\<rfloor>\<close> (on the integers \<open>div\<close> is the floor,
  and a day has 86400000000 microseconds; the number is negative for an overdue record),
  \<open>urgency = max 1 (5 - days_until_due)\<close>, and the priority score is 3, 2, 1 for High,
  Medium, Low. Here \<open>now\<close> is the reading of the clock taken for that record: the record
  at place \<open>i\<close> is scored against the reading numbered by the pending records before it.
  The records that are not pending are returned as they came: no score is written into
  them.
\<close>

theorem optimize_schedule_scores:
  assumes "\<forall>t\<in>set ts. status t = ''pending'' \<longrightarrow> priority t \<in> {''High'', ''Medium'', ''Low''}"
  shows "optimize_schedule clock ts =
     Inr (map (\<lambda>i. if status (ts ! i) = ''pending''
                    then (ts ! i)\<lparr>optimization_score :=
                           Some (max 1 (5 - (due_date (ts ! i)
                                   - clock (length (filter (\<lambda>u. status u = ''pending'') (take i ts))))
                                 div 86400000000)
                                 + (if priority (ts ! i) = ''High'' then 3
                                    else if priority (ts ! i) = ''Medium'' then 2 else 1))\<rparr>
                    else ts ! i) [0..<length ts])"
  using score_pending_map [OF assms, of clock 0]
  by (simp add: optimize_schedule_def optimize_schedule_locals_def)

text \<open>With a clock that advances by a second from one reading to the next: two Low
  records due at the same instant, a day after the first reading, score 5 and 6, since
  the second is read against a later instant; a High record due in nine days scores
  \<open>max 1 (5 - 8) + 3 = 4\<close>, a Medium record one hour overdue
  \<open>max 1 (5 - (-1)) + 2 = 8\<close>, and a completed record keeps no score.\<close>

theorem optimize_schedule_scores_witness:
  "optimize_schedule (\<lambda>k. days 739000 + seconds (int k))
     [create_task ''s1'' 0 ''Pay rent'' [] ''Low'' (days 739001),
      (create_task ''s2'' 0 ''Done'' [] ''Whenever'' (days 739002))\<lparr>status := ''completed''\<rparr>,
      create_task ''s3'' 0 ''Pay rent again'' [] ''Low'' (days 739001),
      create_task ''s4'' 0 ''Plan trip'' [] ''High'' (days 739009),
      create_task ''s5'' 0 ''File taxes'' [] ''Medium'' (days 739000 - hours 1)]
   = Inr
     [(create_task ''s1'' 0 ''Pay rent'' [] ''Low'' (days 739001))
        \<lparr>optimization_score := Some 5\<rparr>,
      (create_task ''s2'' 0 ''Done'' [] ''Whenever'' (days 739002))\<lparr>status := ''completed''\<rparr>,
      (create_task ''s3'' 0 ''Pay rent again'' [] ''Low'' (days 739001))
        \<lparr>optimization_score := Some 6\<rparr>,
      (create_task ''s4'' 0 ''Plan trip'' [] ''High'' (days 739009))
        \<lparr>optimization_score := Some 4\<rparr>,
      (create_task ''s5'' 0 ''File taxes'' [] ''Medium'' (days 739000 - hours 1))
        \<lparr>optimization_score := Some 8\<rparr>]"
  using optimize_schedule_scores
    [of "[create_task ''s1'' 0 ''Pay rent'' [] ''Low'' (days 739001),
      (create_task ''s2'' 0 ''Done'' [] ''Whenever'' (days 739002))\<lparr>status := ''completed''\<rparr>,
      create_task ''s3'' 0 ''Pay rent again'' [] ''Low'' (days 739001),
      create_task ''s4'' 0 ''Plan trip'' [] ''High'' (days 739009),
      create_task ''s5'' 0 ''File taxes'' [] ''Medium'' (days 739000 - hours 1)]"
     "\<lambda>k. days 739000 + seconds (int k)"]
  by (simp add: create_task_def days_def hours_def minutes_def seconds_def)

subsection \<open>Order of the returned list\<close>

text \<open>The local list \<^verbatim>\<open>pending_tasks\<close> is sorted as intended: descending by score, and
  records of equal score in their order.\<close>

lemma sort_reverse_descending:
  "sorted_wrt (\<lambda>x y. get_optimization_score x \<ge> get_optimization_score y) (sort_reverse ts)"
proof -
  have "sorted (map (\<lambda>x. - get_optimization_score x) (sort_reverse ts))"
    unfolding sort_reverse_def by (rule sorted_sort_key)
  then show ?thesis by (simp add: sorted_wrt_map)
qed

lemma sort_reverse_stable:
  "filter (\<lambda>x. get_optimization_score x = k) (sort_reverse ts) =
   filter (\<lambda>x. get_optimization_score x = k) ts"
  using sort_key_stable [of "\<lambda>x. - get_optimization_score x" "- k" ts]
  by (simp add: sort_reverse_def)

text \<open>The list that is returned keeps every record at its place.\<close>

lemma score_pending_ids:
  "score_pending clock k ts = Inr ts' \<Longrightarrow> map task_id ts' = map task_id ts"
  by (induction ts arbitrary: ts' k)
     (auto simp: score_task_def Let_def split: if_splits sum.splits option.splits)

lemma optimize_schedule_keeps_positions:
  "optimize_schedule clock ts = Inr ts' \<Longrightarrow> map task_id ts' = map task_id ts"
  by (auto simp: optimize_schedule_def optimize_schedule_locals_def
        split: sum.splits dest: score_pending_ids)

text \<open>
  Claim C2 says that the returned list holds the pending records by descending score, so
  that task A (Low, due in 1 day, score 5) comes before task B (High, due in 4 days,
  score 4). On the input \<open>[B, A]\<close> the local list \<^verbatim>\<open>pending_tasks\<close> is sorted to
  \<open>[A, B]\<close>, but the function returns \<^verbatim>\<open>tasks\<close>, which is still \<open>[B, A]\<close>: scores 4, 5.
\<close>

theorem optimize_schedule_returns_input_order:
  "optimize_schedule_locals (\<lambda>k. days 739000 + seconds (int k))
     [create_task ''B'' (days 739000) ''Task B'' [] ''High'' (days 739004 + hours 12),
      create_task ''A'' (days 739000) ''Task A'' [] ''Low'' (days 739001 + hours 12)]
   = Inr
      ([(create_task ''B'' (days 739000) ''Task B'' [] ''High'' (days 739004 + hours 12))
          \<lparr>optimization_score := Some 4\<rparr>,
        (create_task ''A'' (days 739000) ''Task A'' [] ''Low'' (days 739001 + hours 12))
          \<lparr>optimization_score := Some 5\<rparr>],
       [(create_task ''A'' (days 739000) ''Task A'' [] ''Low'' (days 739001 + hours 12))
          \<lparr>optimization_score := Some 5\<rparr>,
        (create_task ''B'' (days 739000) ''Task B'' [] ''High'' (days 739004 + hours 12))
          \<lparr>optimization_score := Some 4\<rparr>]) \<and>
   optimize_schedule (\<lambda>k. days 739000 + seconds (int k))
     [create_task ''B'' (days 739000) ''Task B'' [] ''High'' (days 739004 + hours 12),
      create_task ''A'' (days 739000) ''Task A'' [] ''Low'' (days 739001 + hours 12)]
   = Inr
      [(create_task ''B'' (days 739000) ''Task B'' [] ''High'' (days 739004 + hours 12))
          \<lparr>optimization_score := Some 4\<rparr>,
       (create_task ''A'' (days 739000) ''Task A'' [] ''Low'' (days 739001 + hours 12))
          \<lparr>optimization_score := Some 5\<rparr>]"
  by code_simp


section \<open>Properties of the record store\<close>

lemma replace_first_None: "tid \<notin> task_id ` set ts \<Longrightarrow> replace_first tid u ts = None"
  by (induction ts) auto

lemma replace_first_split:
  "ts = pre @ x # post \<Longrightarrow> \<forall>p\<in>set pre. task_id p \<noteq> tid \<Longrightarrow> task_id x = tid \<Longrightarrow>
   replace_first tid u ts = Some (pre @ u # post)"
  by (induction pre arbitrary: ts) auto

lemma filter_absent: "tid \<notin> task_id ` set ts \<Longrightarrow> filter (\<lambda>task. task_id task \<noteq> tid) ts = ts"
  by (induction ts) auto

text \<open>
  Claim C3, as amended. For an identifier that no stored record carries, \<open>update_task\<close>
  returns false and \<open>delete_task\<close> returns true, and both leave the records of the store
  as they are; neither raises.
\<close>

theorem missing_id_update_delete:
  assumes "tid \<notin> task_id ` set (tasks s)"
  shows "update_task tid updated_task s = (False, s) \<and> delete_task tid s = (True, s)"
  using assms by (simp add: update_task_def delete_task_def replace_first_None filter_absent)

theorem missing_id_update_delete_witness:
  "update_task ''no-such-id'' (create_task ''u1'' 5 ''New'' [] ''Low'' 9)
      \<lparr>tasks = [create_task ''k1'' 0 ''Old'' [] ''High'' 7]\<rparr>
     = (False, \<lparr>tasks = [create_task ''k1'' 0 ''Old'' [] ''High'' 7]\<rparr>) \<and>
   delete_task ''no-such-id'' \<lparr>tasks = [create_task ''k1'' 0 ''Old'' [] ''High'' 7]\<rparr>
     = (True, \<lparr>tasks = [create_task ''k1'' 0 ''Old'' [] ''High'' 7]\<rparr>)"
  using missing_id_update_delete
      [of "''no-such-id''" "\<lparr>tasks = [create_task ''k1'' 0 ''Old'' [] ''High'' 7]\<rparr>"
          "create_task ''u1'' 5 ''New'' [] ''Low'' 9"]
  by (simp add: create_task_def)

text \<open>As stated, with false as the result of \<open>delete_task\<close>, the claim fails.\<close>

theorem delete_missing_id_counterexample:
  "''no-such-id''
     \<notin> task_id ` set (tasks \<lparr>tasks = [create_task ''k1'' 0 ''Old'' [] ''High'' 7]\<rparr>) \<and>
   delete_task ''no-such-id'' \<lparr>tasks = [create_task ''k1'' 0 ''Old'' [] ''High'' 7]\<rparr>
     \<noteq> (False, \<lparr>tasks = [create_task ''k1'' 0 ''Old'' [] ''High'' 7]\<rparr>)"
  by (simp add: delete_task_def create_task_def)

text \<open>
  Claim C10. When some stored record carries the identifier \<open>tid\<close>, \<open>update_task\<close>
  returns true and puts the new record, whole, in the place of the first record with that
  identifier; everything before and after it stays, in its place. Nothing is asked of the
  identifier of the new record, so the identifier at that place can change.
\<close>

theorem update_task_replaces_first:
  assumes "tid \<in> task_id ` set (tasks s)"
  shows "\<exists>pre x post. tasks s = pre @ x # post \<and> task_id x = tid \<and>
           (\<forall>p\<in>set pre. task_id p \<noteq> tid) \<and>
           update_task tid updated_task s = (True, s\<lparr>tasks := pre @ updated_task # post\<rparr>)"
proof -
  from assms have "\<exists>x\<in>set (tasks s). task_id x = tid" by auto
  then obtain pre x post where
    d: "tasks s = pre @ x # post" "task_id x = tid" "\<forall>p\<in>set pre. task_id p \<noteq> tid"
    by (auto dest!: split_list_first_prop)
  from replace_first_split [OF d(1) d(3) d(2)]
  have "update_task tid updated_task s = (True, s\<lparr>tasks := pre @ updated_task # post\<rparr>)"
    by (simp add: update_task_def)
  with d show ?thesis by blast
qed

text \<open>Two records carry \<^verbatim>\<open>k2\<close>; the first is replaced by a record that carries
  \<^verbatim>\<open>k9\<close>.\<close>

theorem update_task_replaces_first_witness:
  "update_task ''k2'' (create_task ''k9'' 5 ''New'' [] ''Medium'' 3)
     \<lparr>tasks = [create_task ''k1'' 0 ''Old'' [] ''High'' 7,
               create_task ''k2'' 1 ''Other'' [] ''Low'' 8,
               create_task ''k2'' 2 ''Twin'' [] ''Low'' 9]\<rparr>
   = (True,
      \<lparr>tasks = [create_task ''k1'' 0 ''Old'' [] ''High'' 7,
                create_task ''k9'' 5 ''New'' [] ''Medium'' 3,
                create_task ''k2'' 2 ''Twin'' [] ''Low'' 9]\<rparr>)"
  using update_task_replaces_first
     [of "''k2''" "\<lparr>tasks = [create_task ''k1'' 0 ''Old'' [] ''High'' 7,
                     create_task ''k2'' 1 ''Other'' [] ''Low'' 8,
                     create_task ''k2'' 2 ''Twin'' [] ''Low'' 9]\<rparr>"
         "create_task ''k9'' 5 ''New'' [] ''Medium'' 3"]
  by (simp add: create_task_def update_task_def)

subsection \<open>Unique identifiers\<close>

lemma replace_first_ids:
  "replace_first tid u ts = Some ts' \<Longrightarrow> task_id u = tid \<Longrightarrow> map task_id ts' = map task_id ts"
  by (induction ts arbitrary: ts') (auto split: if_splits option.splits)

lemma tasks_add: "tasks (snd (add_task task s)) = tasks s @ [task]"
  by (simp add: add_task_def)

lemma tasks_delete:
  "tasks (snd (delete_task tid s)) = filter (\<lambda>task. task_id task \<noteq> tid) (tasks s)"
  by (simp add: delete_task_def)

lemma ids_update:
  "task_id u = tid \<Longrightarrow> map task_id (tasks (snd (update_task tid u s))) = map task_id (tasks s)"
  by (simp add: update_task_def replace_first_ids split: option.splits)

lemma ids_delete_subset:
  "set (map task_id (tasks (snd (delete_task tid s)))) \<subseteq> set (map task_id (tasks s))"
  by (auto simp: tasks_delete)

lemma ids_delete_distinct:
  "distinct (map task_id (tasks s)) \<Longrightarrow> distinct (map task_id (tasks (snd (delete_task tid s))))"
  by (simp add: tasks_delete distinct_map_filter)

text \<open>The invariant of a run: the stored identifiers are distinct, and none of them is
  among the identifiers still to be added.\<close>

lemma foldl_ids_distinct:
  "distinct (map task_id (tasks s)) \<Longrightarrow> distinct (added_ids ops) \<Longrightarrow>
   set (added_ids ops) \<inter> set (map task_id (tasks s)) = {} \<Longrightarrow>
   \<forall>op\<in>set ops. keeps_id op \<Longrightarrow>
   distinct (map task_id (tasks (foldl apply_op s ops)))"
proof (induction ops arbitrary: s)
  case Nil
  then show ?case by simp
next
  case (Cons op ops)
  show ?case
  proof (cases op)
    case (Add task)
    have "distinct (map task_id (tasks (apply_op s op)))"
      using Cons.prems Add by (auto simp: tasks_add)
    moreover have "set (added_ids ops) \<inter> set (map task_id (tasks (apply_op s op))) = {}"
      using Cons.prems Add by (auto simp: tasks_add)
    moreover have "distinct (added_ids ops)" using Cons.prems Add by simp
    moreover have "\<forall>op\<in>set ops. keeps_id op" using Cons.prems by simp
    ultimately show ?thesis using Cons.IH [of "apply_op s op"] by simp
  next
    case (Update tid u)
    with Cons.prems have k: "task_id u = tid" by simp
    have "map task_id (tasks (apply_op s op)) = map task_id (tasks s)"
      using Update ids_update [OF k] by simp
    with Cons.prems Update show ?thesis using Cons.IH [of "apply_op s op"] by simp
  next
    case (Delete tid)
    have "distinct (map task_id (tasks (apply_op s op)))"
      using Cons.prems Delete ids_delete_distinct by simp
    moreover have "set (added_ids ops) \<inter> set (map task_id (tasks (apply_op s op))) = {}"
    proof -
      have "set (added_ids ops) \<inter> set (map task_id (tasks s)) = {}"
        using Cons.prems(3) Delete by simp
      moreover have "set (map task_id (tasks (apply_op s op))) \<subseteq> set (map task_id (tasks s))"
        using Delete ids_delete_subset [of tid s] by simp
      ultimately show ?thesis by blast
    qed
    moreover have "distinct (added_ids ops)" using Cons.prems Delete by simp
    moreover have "\<forall>op\<in>set ops. keeps_id op" using Cons.prems by simp
    ultimately show ?thesis using Cons.IH [of "apply_op s op"] by simp
  qed
qed

text \<open>
  Claim C9, as amended. Every sequence of \<open>add_task\<close>, \<open>update_task\<close> and
  \<open>delete_task\<close> that starts from the empty store, in which the added records carry
  distinct identifiers and every \<open>update_task tid t\<close> passes a record \<open>t\<close> whose own
  identifier is \<open>tid\<close>, leads to a store in which no two records share an identifier.
\<close>

theorem ids_unique_when_updates_keep_id:
  assumes "distinct (added_ids ops)" and "\<forall>op\<in>set ops. keeps_id op"
  shows "distinct (map task_id (tasks (run_ops ops)))"
  unfolding run_ops_def
  using assms by (intro foldl_ids_distinct) (simp_all add: empty_storage_def)

theorem ids_unique_when_updates_keep_id_witness:
  "distinct (map task_id (tasks (run_ops
     [Add (create_task ''k1'' 0 ''Old'' [] ''High'' 7),
      Add (create_task ''k2'' 1 ''Other'' [] ''Low'' 8),
      Update ''k2'' (create_task ''k2'' 1 ''Other, edited'' [] ''Medium'' 8),
      Delete ''k1''])))"
  using ids_unique_when_updates_keep_id
     [of "[Add (create_task ''k1'' 0 ''Old'' [] ''High'' 7),
      Add (create_task ''k2'' 1 ''Other'' [] ''Low'' 8),
      Update ''k2'' (create_task ''k2'' 1 ''Other, edited'' [] ''Medium'' 8),
      Delete ''k1'']"]
  by (simp add: create_task_def)

text \<open>As stated, with nothing asked of the updates, the claim fails: two records with
  distinct identifiers are added, and the second is then replaced by a record that carries
  the identifier of the first.\<close>

theorem ids_unique_counterexample:
  "distinct (added_ids
     [Add (create_task ''k1'' 0 ''Old'' [] ''High'' 7),
      Add (create_task ''k2'' 1 ''Other'' [] ''Low'' 8),
      Update ''k2'' (create_task ''k1'' 0 ''Old'' [] ''High'' 7)]) \<and>
   \<not> distinct (map task_id (tasks (run_ops
     [Add (create_task ''k1'' 0 ''Old'' [] ''High'' 7),
      Add (create_task ''k2'' 1 ''Other'' [] ''Low'' 8),
      Update ''k2'' (create_task ''k1'' 0 ''Old'' [] ''High'' 7)])))"
  by (simp add: run_ops_def empty_storage_def add_task_def update_task_def create_task_def)

subsection \<open>Records handed to the caller\<close>

text \<open>
  Claim C4 says that the records returned by \<open>get_all_tasks\<close> are independent copies of
  the stored ones. The list is a copy, its elements are the stored dictionaries
  themselves: on a store with one pending record, writing \<^verbatim>\<open>completed\<close> into the status of the record that
  \<open>get_all_tasks\<close> returned changes the stored record, with no call of \<open>update_task\<close>.
\<close>

theorem get_all_tasks_shares_records:
  "get_all_tasks
     \<lparr>heap = [0 \<mapsto> create_task ''k1'' 0 ''Old'' [] ''High'' 7], self_tasks = [0]\<rparr>
     = [0] \<and>
   stored_records
     \<lparr>heap = [0 \<mapsto> create_task ''k1'' 0 ''Old'' [] ''High'' 7], self_tasks = [0]\<rparr>
     = [Some (create_task ''k1'' 0 ''Old'' [] ''High'' 7)] \<and>
   stored_records
     (set_status 0 ''completed''
        \<lparr>heap = [0 \<mapsto> create_task ''k1'' 0 ''Old'' [] ''High'' 7],
          self_tasks = [0]\<rparr>)
     = [Some ((create_task ''k1'' 0 ''Old'' [] ''High'' 7)\<lparr>status := ''completed''\<rparr>)]"
  by (simp add: get_all_tasks_def stored_records_def set_status_def)

end
